theory Spec2Isabelle
  imports Complex_Main
begin

section \<open>Values of the notebook\<close>

text \<open>
  A Python float: a finite value or one of the three non-finite ones. The bounds of the
  search space, the mutation factor and the crossover rate are floats; no arithmetic on
  them is performed by the code modelled here.
\<close>

datatype pyfloat = Finite real | PosInf | NegInf | NaN


text \<open>The exceptions that occur: the one the function raises, and two an objective may raise.\<close>

datatype error =
    NotImplementedError string
  | ValueError string
  | RuntimeError string

text \<open>
  \<^verbatim>\<open>
  @dataclass
  class DEResult:
      best_vector: np.ndarray
      best_value: float
      history: list[np.ndarray]
  \<close>
  A one-dimensional array is a list of floats, a population (two-dimensional) a list of those.
\<close>

record DEResult =
  best_vector :: "pyfloat list"
  best_value :: pyfloat
  history :: "pyfloat list list list"

text \<open>What a call hands back when it returns: a function that falls off its end returns None.\<close>

datatype pyvalue = PyNone | Result DEResult

text \<open>\<^verbatim>\<open>BOUNDS = [(-5, 5), (-5, 5)]\<close>\<close>

definition BOUNDS :: "(pyfloat \<times> pyfloat) list" where
  "BOUNDS = [(Finite (- 5), Finite 5), (Finite (- 5), Finite 5)]"

section \<open>Statements: state passing with exceptions\<close>

text \<open>
  A statement runs on a state and ends either normally (\<open>Inr\<close>) or by raising
  (\<open>Inl\<close>); either way it leaves a state behind. After a raise the rest of the
  block is skipped.
\<close>

type_synonym ('s, 'a) exec = "'s \<Rightarrow> (error + 'a) \<times> 's"

definition py_return :: "'a \<Rightarrow> ('s, 'a) exec" where
  "py_return x = (\<lambda>s. (Inr x, s))"

definition py_raise :: "error \<Rightarrow> ('s, 'a) exec" where
  "py_raise e = (\<lambda>s. (Inl e, s))"

definition bindE :: "('s, 'a) exec \<Rightarrow> ('a \<Rightarrow> ('s, 'b) exec) \<Rightarrow> ('s, 'b) exec" where
  "bindE m f = (\<lambda>s. case m s of (Inl e, s') \<Rightarrow> (Inl e, s') | (Inr x, s') \<Rightarrow> f x s')"

definition then_do :: "('s, unit) exec \<Rightarrow> ('s, 'a) exec \<Rightarrow> ('s, 'a) exec" where
  "then_do m n = bindE m (\<lambda>_. n)"

text \<open>The statement \<^verbatim>\<open>...\<close> evaluates the Ellipsis constant and does nothing.\<close>

definition ellipsis :: "('s, unit) exec" where
  "ellipsis = py_return ()"

text \<open>\<^verbatim>\<open>range(n)\<close> is \<open>0, ..., n - 1\<close>, empty when \<open>n \<le> 0\<close>.\<close>

definition py_range :: "int \<Rightarrow> int list" where
  "py_range n = [0..n - 1]"

text \<open>\<^verbatim>\<open>for x in xs: body\<close>\<close>

primrec for_in :: "'a list \<Rightarrow> ('a \<Rightarrow> ('s, unit) exec) \<Rightarrow> ('s, unit) exec" where
  "for_in [] body = py_return ()"
| "for_in (x # xs) body = then_do (body x) (for_in xs body)"

section \<open>The local variables of \<open>differential_evolution\<close>\<close>

text \<open>
  The names the body binds, each unbound (\<open>None\<close>) until its assignment or its loop
  header has run. The state of a running call is this frame together with the world
  outside it: everything the objective function and the random generator can read or
  change, of an arbitrary type \<open>'w\<close>.
\<close>

record frame =
  dimensions :: "nat option"
  lower_bounds :: "pyfloat list option"
  upper_bounds :: "pyfloat list option"
  generation :: "int option"
  i_var :: "int option"

definition no_locals :: frame where
  "no_locals = \<lparr>dimensions = None, lower_bounds = None, upper_bounds = None,
     generation = None, i_var = None\<rparr>"

definition assign :: "(frame \<Rightarrow> frame) \<Rightarrow> (frame \<times> 'w, unit) exec" where
  "assign upd = (\<lambda>(fr, w). (Inr (), (upd fr, w)))"

text \<open>An objective function: called on a vector, it returns a float or raises, and may change the world.\<close>

type_synonym 'w objective = "pyfloat list \<Rightarrow> 'w \<Rightarrow> (error + pyfloat) \<times> 'w"

section \<open>\<open>differential_evolution\<close>\<close>

text \<open>
  \<^verbatim>\<open>
  def differential_evolution(func, bounds=BOUNDS, pop_size=50, F=0.8, CR=0.9,
                             max_gen=100) -> DEResult:
      raise NotImplementedError("Not implemented")
      dimensions = len(bounds)
      lower_bounds = np.array([b[0] for b in bounds])
      upper_bounds = np.array([b[1] for b in bounds])
      # TODO: Exercise 1 - Initialization
      for generation in range(max_gen):
          ...
          for i in range(pop_size):
              ...
              # TODO: Exercise 2 - Mutation
              # TODO: Exercise 3 - Crossover
              # TODO: Exercise 4 - Selection
  \<close>
  The four exercises are comments: the function has no initialisation, mutation,
  crossover or selection code. The statements after the raise are kept as written.
\<close>

definition differential_evolution_rest ::
  "'w objective \<Rightarrow> (pyfloat \<times> pyfloat) list \<Rightarrow> int \<Rightarrow> pyfloat \<Rightarrow> pyfloat \<Rightarrow> int
     \<Rightarrow> (frame \<times> 'w, pyvalue) exec" where
  "differential_evolution_rest func bounds pop_size F CR max_gen =
     then_do (assign (\<lambda>fr. fr\<lparr>dimensions := Some (length bounds)\<rparr>))
    (then_do (assign (\<lambda>fr. fr\<lparr>lower_bounds := Some (map fst bounds)\<rparr>))
    (then_do (assign (\<lambda>fr. fr\<lparr>upper_bounds := Some (map snd bounds)\<rparr>))
    (then_do (for_in (py_range max_gen) (\<lambda>g.
        then_do (assign (\<lambda>fr. fr\<lparr>generation := Some g\<rparr>))
       (then_do ellipsis
       (for_in (py_range pop_size) (\<lambda>i.
          then_do (assign (\<lambda>fr. fr\<lparr>i_var := Some i\<rparr>))
          ellipsis)))))
     (py_return PyNone))))"

definition differential_evolution_body ::
  "'w objective \<Rightarrow> (pyfloat \<times> pyfloat) list \<Rightarrow> int \<Rightarrow> pyfloat \<Rightarrow> pyfloat \<Rightarrow> int
     \<Rightarrow> (frame \<times> 'w, pyvalue) exec" where
  "differential_evolution_body func bounds pop_size F CR max_gen =
     then_do (py_raise (NotImplementedError ''Not implemented''))
       (differential_evolution_rest func bounds pop_size F CR max_gen)"

text \<open>A call runs the body on a fresh frame; the frame is dropped when the call ends.\<close>

definition differential_evolution ::
  "'w objective \<Rightarrow> (pyfloat \<times> pyfloat) list \<Rightarrow> int \<Rightarrow> pyfloat \<Rightarrow> pyfloat \<Rightarrow> int
     \<Rightarrow> 'w \<Rightarrow> (error + pyvalue) \<times> 'w" where
  "differential_evolution func bounds pop_size F CR max_gen w =
     (case differential_evolution_body func bounds pop_size F CR max_gen (no_locals, w) of
        (r, (fr, w')) \<Rightarrow> (r, w'))"

section \<open>Objectives for the scenarios\<close>

text \<open>
  Two instrumented objectives whose world is the number of times they have been called:
  one returns a value, the other always raises the exception it is given. The third
  lives in a world made of the random source's seed and a call count.
\<close>

definition counting_objective :: "nat objective" where
  "counting_objective x n = (Inr (Finite 0), Suc n)"

definition raising_objective :: "error \<Rightarrow> nat objective" where
  "raising_objective e x n = (Inl e, Suc n)"

definition seeded_objective :: "(nat \<times> nat) objective" where
  "seeded_objective x w = (Inr (Finite 0), (fst w, Suc (snd w)))"

section \<open>The raise comes first\<close>

lemma then_do_raise: "then_do (py_raise e) n s = (Inl e, s)"
  by (simp add: then_do_def bindE_def py_raise_def)

lemma body_raises:
  "differential_evolution_body func bounds pop_size F CR max_gen s =
     (Inl (NotImplementedError ''Not implemented''), s)"
  by (simp add: differential_evolution_body_def then_do_raise)

lemma call_raises:
  "differential_evolution func bounds pop_size F CR max_gen w =
     (Inl (NotImplementedError ''Not implemented''), w)"
  by (simp add: differential_evolution_def body_raises)

section \<open>What the statements after the raise would do\<close>

text \<open>
  Run on their own, the statements after the raise bind \<open>dimensions\<close>,
  \<open>lower_bounds\<close> and \<open>upper_bounds\<close>, bind the two loop variables when the
  loops are entered, never call the objective, and fall off the end of the function: the
  value is None. A frame in which \<open>dimensions\<close> is unbound has therefore not been
  through them.
\<close>

lemma assign_apply: "assign upd (fr, w) = (Inr (), (upd fr, w))"
  by (simp add: assign_def)

lemma then_do_assign: "then_do (assign upd) n (fr, w) = n (upd fr, w)"
  by (simp add: then_do_def bindE_def assign_def)

lemma then_do_ellipsis: "then_do ellipsis n s = n s"
  by (simp add: then_do_def bindE_def ellipsis_def py_return_def)

lemma then_do_apply:
  "then_do m n s = (case m s of (Inl e, s') \<Rightarrow> (Inl e, s') | (Inr x, s') \<Rightarrow> n s')"
  by (simp add: then_do_def bindE_def)

lemma for_in_fold:
  assumes "\<And>x fr. body x (fr, w) = (Inr (), (upd x fr, w))"
  shows "for_in xs body (fr, w) = (Inr (), (fold upd xs fr, w))"
  by (induction xs arbitrary: fr) (simp_all add: py_return_def then_do_apply assms)

lemma fold_i_var:
  "fold (\<lambda>i fr. fr\<lparr>i_var := Some i\<rparr>) xs fr =
     fr\<lparr>i_var := (if xs = [] then i_var fr else Some (last xs))\<rparr>"
  by (induction xs arbitrary: fr) simp_all

lemma inner_body:
  "then_do (assign (\<lambda>fr. fr\<lparr>i_var := Some i\<rparr>)) ellipsis (fr, w) =
     (Inr (), (fr\<lparr>i_var := Some i\<rparr>, w))"
  by (simp add: then_do_apply assign_apply ellipsis_def py_return_def)

lemma inner_loop:
  "for_in xs (\<lambda>i. then_do (assign (\<lambda>fr. fr\<lparr>i_var := Some i\<rparr>)) ellipsis) (fr, w) =
     (Inr (), (fr\<lparr>i_var := (if xs = [] then i_var fr else Some (last xs))\<rparr>, w))"
  using for_in_fold [where upd = "\<lambda>i fr. fr\<lparr>i_var := Some i\<rparr>"
      and body = "\<lambda>i. then_do (assign (\<lambda>fr. fr\<lparr>i_var := Some i\<rparr>)) ellipsis", OF inner_body]
  by (simp only: fold_i_var)

lemma outer_body:
  "then_do (assign (\<lambda>fr. fr\<lparr>generation := Some g\<rparr>))
       (then_do ellipsis
       (for_in xs (\<lambda>i. then_do (assign (\<lambda>fr. fr\<lparr>i_var := Some i\<rparr>)) ellipsis))) (fr, w) =
     (Inr (), (fr\<lparr>generation := Some g,
                 i_var := (if xs = [] then i_var fr else Some (last xs))\<rparr>, w))"
proof -
  have "then_do ellipsis
       (for_in xs (\<lambda>i. then_do (assign (\<lambda>fr. fr\<lparr>i_var := Some i\<rparr>)) ellipsis))
       (fr\<lparr>generation := Some g\<rparr>, w) =
     (Inr (), (fr\<lparr>generation := Some g,
                 i_var := (if xs = [] then i_var fr else Some (last xs))\<rparr>, w))"
    by (simp add: then_do_ellipsis inner_loop)
  then show ?thesis
    by (subst then_do_apply) (simp add: assign_apply)
qed

lemma fold_generation:
  "fold (\<lambda>g fr. fr\<lparr>generation := Some g,
                 i_var := (if xs = [] then i_var fr else Some (last xs))\<rparr>) gs fr =
     fr\<lparr>generation := (if gs = [] then generation fr else Some (last gs)),
        i_var := (if gs = [] \<or> xs = [] then i_var fr else Some (last xs))\<rparr>"
  by (induction gs arbitrary: fr) simp_all

lemma outer_loop:
  "for_in gs (\<lambda>g. then_do (assign (\<lambda>fr. fr\<lparr>generation := Some g\<rparr>))
       (then_do ellipsis
       (for_in xs (\<lambda>i. then_do (assign (\<lambda>fr. fr\<lparr>i_var := Some i\<rparr>)) ellipsis)))) (fr, w) =
     (Inr (), (fr\<lparr>generation := (if gs = [] then generation fr else Some (last gs)),
                 i_var := (if gs = [] \<or> xs = [] then i_var fr else Some (last xs))\<rparr>, w))"
  using for_in_fold [where upd = "\<lambda>g fr. fr\<lparr>generation := Some g,
                 i_var := (if xs = [] then i_var fr else Some (last xs))\<rparr>"
      and body = "\<lambda>g. then_do (assign (\<lambda>fr. fr\<lparr>generation := Some g\<rparr>))
       (then_do ellipsis
       (for_in xs (\<lambda>i. then_do (assign (\<lambda>fr. fr\<lparr>i_var := Some i\<rparr>)) ellipsis)))", OF outer_body]
  by (simp only: fold_generation)

lemma py_range_empty: "(py_range n = []) = (n \<le> 0)"
  by (auto simp add: py_range_def)

lemma last_py_range: "0 < n \<Longrightarrow> last (py_range n) = n - 1"
  by (simp add: py_range_def upto_rec2)

lemma rest_returns_None:
  "differential_evolution_rest func bounds pop_size F CR max_gen (fr, w) =
     (Inr PyNone,
      (fr\<lparr>dimensions := Some (length bounds),
          lower_bounds := Some (map fst bounds),
          upper_bounds := Some (map snd bounds),
          generation := (if max_gen \<le> 0 then generation fr else Some (max_gen - 1)),
          i_var := (if max_gen \<le> 0 \<or> pop_size \<le> 0 then i_var fr else Some (pop_size - 1))\<rparr>, w))"
  unfolding differential_evolution_rest_def
  apply (subst then_do_apply, simp only: assign_apply prod.case sum.case)
  apply (subst then_do_apply, simp only: assign_apply prod.case sum.case)
  apply (subst then_do_apply, simp only: assign_apply prod.case sum.case)
  apply (subst then_do_apply, simp only: outer_loop prod.case sum.case)
  apply (simp add: py_return_def py_range_empty last_py_range)
  done

lemma rest_example:
  "differential_evolution_rest counting_objective BOUNDS 2 (Finite 0.8) (Finite 0.9) 3
       (no_locals, 0) =
     (Inr PyNone,
      (\<lparr>dimensions = Some 2, lower_bounds = Some [Finite (- 5), Finite (- 5)],
         upper_bounds = Some [Finite 5, Finite 5], generation = Some 2, i_var = Some 1\<rparr>, 0))"
  by (simp add: rest_returns_None no_locals_def BOUNDS_def)

section \<open>The claims\<close>

text \<open>
  C2. For every objective function, bounds list and hyperparameter setting, a call of
  \<open>differential_evolution\<close> raises \<open>NotImplementedError("Not implemented")\<close> as
  its first statement and leaves the world as it found it. No call returns a
  \<open>DEResult\<close>. The statements after the raise are not reached: when the call ends,
  the frame is the fresh one, with \<open>dimensions\<close>, \<open>lower_bounds\<close>,
  \<open>upper_bounds\<close> and both loop variables unbound.
\<close>

theorem differential_evolution_not_implemented:
  "differential_evolution func bounds pop_size F CR max_gen w =
     (Inl (NotImplementedError ''Not implemented''), w)
   \<and> differential_evolution_body func bounds pop_size F CR max_gen (no_locals, w) =
     (Inl (NotImplementedError ''Not implemented''), (no_locals, w))
   \<and> (\<forall>r. fst (differential_evolution func bounds pop_size F CR max_gen w) \<noteq> Inr (Result r))"
  by (simp add: call_raises body_raises)




text \<open>
  C8, as stated, fails. With an objective that always raises \<open>ValueError("boom")\<close>,
  the exception that reaches the caller is not the objective's: it is
  \<open>NotImplementedError("Not implemented")\<close>, and the objective has not been called
  (its call count is still 0; one call would have made it 1).
\<close>

theorem raising_objective_counterexample:
  "differential_evolution (raising_objective (ValueError ''boom'')) BOUNDS 50
       (Finite 0.8) (Finite 0.9) 100 0 =
     (Inl (NotImplementedError ''Not implemented''), 0)
   \<and> fst (differential_evolution (raising_objective (ValueError ''boom'')) BOUNDS 50
       (Finite 0.8) (Finite 0.9) 100 0) \<noteq> Inl (ValueError ''boom'')
   \<and> raising_objective (ValueError ''boom'') [Finite 0, Finite 0] 0 =
     (Inl (ValueError ''boom''), 1)"
  by (simp add: differential_evolution_def differential_evolution_body_def then_do_def
      bindE_def py_raise_def raising_objective_def)

text \<open>
  C8, amended. With any objective that always raises, whatever it raises, whatever world
  it lives in and whatever it does to that world when called, a call of
  \<open>differential_evolution\<close> returns nothing, neither a default \<open>DEResult\<close> nor
  None: it aborts at once with its own \<open>NotImplementedError("Not implemented")\<close>,
  without having called the objective (the world is as the call found it), so the
  objective's exception is never raised.
\<close>

theorem always_raising_objective_never_called:
  assumes "\<forall>x u. \<exists>e. fst (func x u) = Inl e"
  shows "differential_evolution func bounds pop_size F CR max_gen w =
      (Inl (NotImplementedError ''Not implemented''), w)
    \<and> (\<forall>v. fst (differential_evolution func bounds pop_size F CR max_gen w) \<noteq> Inr v)"
  by (simp add: call_raises)

theorem always_raising_objective_witness:
  "fst (raising_objective (ValueError ''boom'') [Finite 0, Finite 0] 0) =
     Inl (ValueError ''boom'')
   \<and> differential_evolution (raising_objective (ValueError ''boom'')) BOUNDS 50
       (Finite 0.8) (Finite 0.9) 100 0 =
     (Inl (NotImplementedError ''Not implemented''), 0)"
proof -
  have always: "\<forall>x u. \<exists>e. fst (raising_objective (ValueError ''boom'') x u) = Inl e"
    by (simp add: raising_objective_def)
  have raised: "fst (raising_objective (ValueError ''boom'') [Finite 0, Finite 0] 0) =
      Inl (ValueError ''boom'')"
    by (simp add: raising_objective_def)
  show ?thesis
    using raised always_raising_objective_never_called
      [OF always, of BOUNDS 50 "Finite 0.8" "Finite 0.9" 100 0]
    by blast
qed

text \<open>
  C9, as stated, fails. Two runs with the same objective, bounds and hyperparameters,
  started from the same seed 42 (the worlds differ only in the objective's call count),
  produce no best vector, best value or history to compare: each ends in
  \<open>NotImplementedError("Not implemented")\<close>.
\<close>

theorem same_seed_counterexample:
  "differential_evolution seeded_objective BOUNDS 50 (Finite 0.8) (Finite 0.9) 100 (42, 0) =
     (Inl (NotImplementedError ''Not implemented''), (42, 0))
   \<and> differential_evolution seeded_objective BOUNDS 50 (Finite 0.8) (Finite 0.9) 100 (42, 7) =
     (Inl (NotImplementedError ''Not implemented''), (42, 7))"
  by (simp add: differential_evolution_def differential_evolution_body_def then_do_def
      bindE_def py_raise_def)

text \<open>
  C9, amended. Two runs with the same objective function, bounds, \<open>pop_size\<close>,
  \<open>F\<close>, \<open>CR\<close> and \<open>max_gen\<close>, started in worlds whose random source is in
  the same state, end identically: each raises
  \<open>NotImplementedError("Not implemented")\<close>, neither returns a \<open>DEResult\<close> (so
  there is no best vector, best value or history), and no random number has been drawn,
  the two random sources being in the same state after the runs as before. Here
  \<open>seed\<close> reads the state of the random source off the world.
\<close>

theorem same_seed_runs_both_raise:
  assumes "seed w = seed w'"
  shows "fst (differential_evolution func bounds pop_size F CR max_gen w) =
      Inl (NotImplementedError ''Not implemented'')
    \<and> fst (differential_evolution func bounds pop_size F CR max_gen w') =
      Inl (NotImplementedError ''Not implemented'')
    \<and> (\<forall>r. fst (differential_evolution func bounds pop_size F CR max_gen w) \<noteq> Inr (Result r))
    \<and> (\<forall>r. fst (differential_evolution func bounds pop_size F CR max_gen w') \<noteq> Inr (Result r))
    \<and> seed (snd (differential_evolution func bounds pop_size F CR max_gen w)) = seed w
    \<and> seed (snd (differential_evolution func bounds pop_size F CR max_gen w)) =
      seed (snd (differential_evolution func bounds pop_size F CR max_gen w'))"
  using assms by (simp add: call_raises)

theorem same_seed_runs_both_raise_witness:
  "fst (differential_evolution seeded_objective BOUNDS 50 (Finite 0.8) (Finite 0.9) 100
       (42, 0)) = Inl (NotImplementedError ''Not implemented'')
   \<and> fst (snd (differential_evolution seeded_objective BOUNDS 50 (Finite 0.8) (Finite 0.9) 100
       (42, 0))) =
     fst (snd (differential_evolution seeded_objective BOUNDS 50 (Finite 0.8) (Finite 0.9) 100
       (42, 7)))"
proof -
  have seeded: "fst (42 :: nat, 0 :: nat) = fst (42 :: nat, 7 :: nat)"
    by simp
  show ?thesis
    using same_seed_runs_both_raise
      [of fst "(42, 0)" "(42, 7)" seeded_objective BOUNDS 50 "Finite 0.8" "Finite 0.9" 100,
       OF seeded]
    by blast
qed



end
